theory Spec2Isabelle
  imports Complex_Main "HOL-Library.Sublist"
begin

section \<open>JavaScript values used by the pages\<close>

text \<open>
  A JavaScript number is a finite value, \<open>NaN\<close> or one of the two infinities. A finite
  number is represented by the decimal value it is written as (the literals \<open>0.95\<close> and
  \<open>0.90\<close> of the source are the reals \<open>0.95\<close> and \<open>0.90\<close>); the binary rounding of
  doubles is outside the model. Comparisons follow IEEE 754: every comparison with
  \<open>NaN\<close> is false.
\<close>

datatype jsnum = Fin real | NaN | PosInf | NegInf

fun js_ge :: "jsnum \<Rightarrow> jsnum \<Rightarrow> bool" where
  "js_ge NaN _ = False"
| "js_ge _ NaN = False"
| "js_ge PosInf _ = True"
| "js_ge _ NegInf = True"
| "js_ge NegInf _ = False"
| "js_ge _ PosInf = False"
| "js_ge (Fin x) (Fin y) = (y \<le> x)"

fun js_lt :: "jsnum \<Rightarrow> jsnum \<Rightarrow> bool" where
  "js_lt NaN _ = False"
| "js_lt _ NaN = False"
| "js_lt PosInf _ = False"
| "js_lt _ NegInf = False"
| "js_lt NegInf _ = True"
| "js_lt _ PosInf = True"
| "js_lt (Fin x) (Fin y) = (x < y)"

text \<open>\<open>Number.isFinite\<close>.\<close>

fun isFinite :: "jsnum \<Rightarrow> bool" where
  "isFinite (Fin _) = True"
| "isFinite _ = False"

text \<open>
  The values a field of a parsed JSON document or a text input can hold. \<open>JObj\<close> stands
  for any object or array; none of the code below looks inside one.
\<close>

datatype jsval = JUndefined | JNull | JBool bool | JNum jsnum | JStr string | JObj

text \<open>
  \<open>Record<string, any>\<close>: an object read by key. A key that is absent reads as
  \<open>undefined\<close>. Properties inherited from \<open>Object.prototype\<close> are not modelled.
\<close>

type_synonym jsobject = "string \<rightharpoonup> jsval"

definition get_prop :: "jsobject \<Rightarrow> string \<Rightarrow> jsval" where
  "get_prop obj k = (case obj k of None \<Rightarrow> JUndefined | Some v \<Rightarrow> v)"

text \<open>\<open>export type Task = 'heart' | 'diabetes' | 'parkinsons' | 'general'\<close>\<close>

datatype Task = Heart | Diabetes | Parkinsons | General

section \<open>Upload page: state derived from an ingested report\<close>

text \<open>
  One entry of \<open>extractedMeta\<close>:
  \<open>{ value: any; unit?: string|null; confidence?: number; source?: string }\<close>.
  The entries arrive as JSON, so \<open>confidence\<close> is kept as a \<open>jsval\<close> and the source's
  test \<open>typeof c !== 'number'\<close> is a test for the constructor \<open>JNum\<close>.
\<close>

record meta =
  meta_value :: jsval
  meta_unit :: jsval
  confidence :: jsval
  meta_source :: jsval

text \<open>
  \<open>extractedMeta\<close> is an object whose keys are enumerated in order, so it is an
  association list; a JavaScript object holds each key once, which is the
  well-formedness condition \<open>distinct (Object_keys em)\<close> of the theorems that need it.
\<close>

type_synonym extracted_meta = "(string \<times> meta) list"

definition Object_keys :: "extracted_meta \<Rightarrow> string list" where
  "Object_keys em = map fst em"

text \<open>\<open>extractedMeta[k]?.confidence\<close>\<close>

definition confidence_of :: "extracted_meta \<Rightarrow> string \<Rightarrow> jsval" where
  "confidence_of em k = (case map_of em k of None \<Rightarrow> JUndefined | Some m \<Rightarrow> confidence m)"

text \<open>\<open>const haveIngest = useMemo(() => !!reportId, [reportId])\<close>, with
  \<open>reportId : string | null\<close>; the empty string is falsy.\<close>

definition haveIngest :: "string option \<Rightarrow> bool" where
  "haveIngest reportId = (case reportId of None \<Rightarrow> False | Some r \<Rightarrow> r \<noteq> [])"

definition numericFieldsByTask :: "Task \<Rightarrow> string list" where
  "numericFieldsByTask t = (case t of
      Heart \<Rightarrow> [''age'', ''trestbps'', ''chol'', ''thalach'', ''oldpeak'', ''ca'']
    | Diabetes \<Rightarrow> [''Pregnancies'', ''Glucose'', ''BloodPressure'', ''SkinThickness'',
        ''Insulin'', ''BMI'', ''DiabetesPedigreeFunction'', ''Age'']
    | Parkinsons \<Rightarrow> [''fo'', ''fhi'', ''flo'', ''jitter_percent'', ''jitter_abs'', ''rap'',
        ''ppq'', ''ddp'', ''shimmer'', ''shimmer_db'', ''apq3'', ''apq5'', ''apq'', ''dda'',
        ''nhr'', ''hnr'', ''rpde'', ''dfa'', ''spread1'', ''spread2'', ''d2'', ''ppe'']
    | General \<Rightarrow> [])"

text \<open>
  The loop of \<open>invalidMissing\<close> over \<open>missing\<close>, with the array \<open>bad\<close> as accumulator.
  \<open>Number\<close> is the JavaScript builtin conversion; it is a parameter of the model, and
  every theorem below holds for each function put in its place.
\<close>

fun invalidMissing_loop ::
  "(jsval \<Rightarrow> jsnum) \<Rightarrow> string list \<Rightarrow> jsobject \<Rightarrow> string list \<Rightarrow> string list \<Rightarrow> string list"
where
  "invalidMissing_loop Number nums features [] bad = bad"
| "invalidMissing_loop Number nums features (k # ks) bad =
     (if k = ''age'' \<or> k = ''Age'' then invalidMissing_loop Number nums features ks bad
      else let v = get_prop features k in
        if v = JStr [] \<or> v = JNull \<or> v = JUndefined
        then invalidMissing_loop Number nums features ks (bad @ [k])
        else if k \<in> set nums
        then (let n = Number v in
              if \<not> isFinite n then invalidMissing_loop Number nums features ks (bad @ [k])
              else invalidMissing_loop Number nums features ks bad)
        else invalidMissing_loop Number nums features ks bad)"

definition invalidMissing ::
  "(jsval \<Rightarrow> jsnum) \<Rightarrow> string option \<Rightarrow> Task \<Rightarrow> string list \<Rightarrow> jsobject \<Rightarrow> string list"
where
  "invalidMissing Number reportId task missing features =
     (if \<not> haveIngest reportId then []
      else invalidMissing_loop Number (numericFieldsByTask task) features missing [])"

text \<open>\<open>const canAnalyze = haveIngest && invalidMissing.length === 0 && task !== 'general'\<close>\<close>

definition canAnalyze ::
  "(jsval \<Rightarrow> jsnum) \<Rightarrow> string option \<Rightarrow> Task \<Rightarrow> string list \<Rightarrow> jsobject \<Rightarrow> bool"
where
  "canAnalyze Number reportId task missing features =
     (haveIngest reportId
      \<and> length (invalidMissing Number reportId task missing features) = 0
      \<and> task \<noteq> General)"

subsection \<open>Confidence grouping\<close>

record groups =
  high :: "string list"
  medium :: "string list"
  low :: "string list"

text \<open>The body of the \<open>forEach\<close> in \<open>groups\<close> (\<open>web/src/pages/Upload.tsx\<close>).\<close>

definition groups_step :: "extracted_meta \<Rightarrow> string list \<Rightarrow> groups \<Rightarrow> string \<Rightarrow> groups" where
  "groups_step em missing g k =
     (if k \<in> set missing then g
      else if k = ''age'' \<or> k = ''Age'' then g
      else case confidence_of em k of
        JNum c \<Rightarrow>
          if js_ge c (Fin 0.95) then g\<lparr>high := high g @ [k]\<rparr>
          else if js_ge c (Fin 0.90) then g\<lparr>medium := medium g @ [k]\<rparr>
          else g\<lparr>low := low g @ [k]\<rparr>
      | _ \<Rightarrow> g)"

definition groups :: "extracted_meta \<Rightarrow> string list \<Rightarrow> groups" where
  "groups em missing =
     foldl (groups_step em missing) \<lparr>high = [], medium = [], low = []\<rparr> (Object_keys em)"

text \<open>\<open>optionalConfirmationKeys\<close>: \<open>[...groups.high, ...groups.medium]\<close>, filtered.\<close>

definition optionalConfirmationKeys :: "extracted_meta \<Rightarrow> string list \<Rightarrow> string list" where
  "optionalConfirmationKeys em missing =
     (let allKeys = high (groups em missing) @ medium (groups em missing)
      in filter (\<lambda>k. k \<noteq> ''age'' \<and> k \<noteq> ''Age'' \<and> k \<noteq> ''sex'') allKeys)"

text \<open>
  \<open>new Set<string>([...])\<close> followed by \<open>Array.from\<close>: the elements in the order of
  their first occurrence.
\<close>

fun Set_from :: "string list \<Rightarrow> string list \<Rightarrow> string list" where
  "Set_from seen [] = seen"
| "Set_from seen (x # xs) =
     (if x \<in> set seen then Set_from seen xs else Set_from (seen @ [x]) xs)"

definition requiredKeys :: "extracted_meta \<Rightarrow> string list \<Rightarrow> string list" where
  "requiredKeys em missing =
     (let s = Set_from [] (missing @ low (groups em missing))
      in filter (\<lambda>k. k \<noteq> ''age'' \<and> k \<noteq> ''Age'' \<and> k \<noteq> ''sex'') s)"

subsection \<open>The second copy of the Upload page\<close>

text \<open>
  The repository holds a second version of the Upload page (\<open>src/unnamed/part_000\<close>).
  Its \<open>groups\<close> has no test for \<open>age\<close>, and its \<open>optionalConfirmationKeys\<close> removes
  \<open>sex\<close> only.
\<close>

definition groups_step_part_000 ::
  "extracted_meta \<Rightarrow> string list \<Rightarrow> groups \<Rightarrow> string \<Rightarrow> groups"
where
  "groups_step_part_000 em missing g k =
     (if k \<in> set missing then g
      else case confidence_of em k of
        JNum c \<Rightarrow>
          if js_ge c (Fin 0.95) then g\<lparr>high := high g @ [k]\<rparr>
          else if js_ge c (Fin 0.9) then g\<lparr>medium := medium g @ [k]\<rparr>
          else g\<lparr>low := low g @ [k]\<rparr>
      | _ \<Rightarrow> g)"

definition groups_part_000 :: "extracted_meta \<Rightarrow> string list \<Rightarrow> groups" where
  "groups_part_000 em missing =
     foldl (groups_step_part_000 em missing) \<lparr>high = [], medium = [], low = []\<rparr>
       (Object_keys em)"

definition optionalConfirmationKeys_part_000 ::
  "extracted_meta \<Rightarrow> string list \<Rightarrow> string list"
where
  "optionalConfirmationKeys_part_000 em missing =
     (let allKeys = high (groups_part_000 em missing) @ medium (groups_part_000 em missing)
      in filter (\<lambda>k. k \<noteq> ''sex'') allKeys)"

section \<open>Upload page: handlers and the analyze button\<close>

text \<open>
  The response of \<open>predictWithFeatures\<close> (\<open>lib/api.ts\<close>) and the part of it that
  the pages keep as \<open>prediction\<close>: \<open>{ label, probability, health_score }\<close>.
\<close>

record prediction_response =
  pred_label :: jsnum
  pred_probability :: jsnum
  pred_health_score :: jsnum
  pred_top_contributors :: "string list option"
  pred_prediction_id :: string

record prediction =
  label :: jsnum
  probability :: jsnum
  health_score :: jsnum

definition prediction_of :: "prediction_response \<Rightarrow> prediction" where
  "prediction_of pred = \<lparr>label = pred_label pred, probability = pred_probability pred,
     health_score = pred_health_score pred\<rparr>"

text \<open>
  The object kept in \<open>localStorage\<close> under \<open>latest_result\<close>. \<open>prediction\<close> is \<open>None\<close>
  for \<open>null\<close>; \<open>latest_task\<close> is \<open>None\<close> when the stored object has no task.
\<close>

record latest_result =
  latest_task :: "Task option"
  latest_features :: jsobject
  latest_prediction :: "prediction option"
  latest_prediction_id :: "string option"
  latest_lifestyle :: jsobject
  latest_symptoms :: jsobject

text \<open>The arguments of one call of \<open>predictWithFeatures(task, features, reportId)\<close>.\<close>

record predict_request =
  req_task :: Task
  req_features :: jsobject
  req_report_id :: "string option"

text \<open>The fields of the response of \<open>ingestReport\<close> that \<open>onSubmit\<close> reads.\<close>

record ingest_response =
  report_id :: string
  extracted :: "jsobject option"
  missing_fields :: "string list option"
  extracted_meta :: "extracted_meta option"

text \<open>The state of the Upload component and the \<open>latest_result\<close> entry it writes.\<close>

record upload_state =
  s_task :: Task
  s_file :: bool
  s_loading :: bool
  s_result :: "prediction_response option"
  s_error :: "string option"
  s_reportId :: "string option"
  s_features :: jsobject
  s_missing :: "string list"
  s_extractedMeta :: extracted_meta
  s_lifestyle :: jsobject
  s_symptoms :: jsobject
  s_latest_result :: "latest_result option"

text \<open>
  \<open>onSubmit\<close>, from the click to the end of the handler; the outcome of the awaited
  \<open>ingestReport\<close> is an argument (\<open>Inl\<close> a failure with its message). The placeholder
  loop gives each missing field that is not among the extracted ones the value \<open>''\<close>.
\<close>

definition placeholders :: "jsobject \<Rightarrow> string list \<Rightarrow> jsobject" where
  "placeholders f ks = foldl (\<lambda>f k. if k \<in> dom f then f else f(k \<mapsto> JStr [])) f ks"

definition onSubmit :: "upload_state \<Rightarrow> string + ingest_response \<Rightarrow> upload_state" where
  "onSubmit s outcome =
     (if \<not> s_file s then s
      else case outcome of
        Inl msg \<Rightarrow> s\<lparr>s_loading := False, s_error := Some msg, s_result := None\<rparr>
      | Inr ingest \<Rightarrow>
          let f = placeholders (case extracted ingest of None \<Rightarrow> Map.empty | Some e \<Rightarrow> e)
                    (case missing_fields ingest of None \<Rightarrow> [] | Some ms \<Rightarrow> ms);
              s' = s\<lparr>s_loading := False, s_error := None, s_result := None,
                     s_reportId := Some (report_id ingest),
                     s_features := f,
                     s_missing := (case missing_fields ingest of None \<Rightarrow> [] | Some ms \<Rightarrow> ms),
                     s_extractedMeta :=
                       (case extracted_meta ingest of None \<Rightarrow> [] | Some m \<Rightarrow> m)\<rparr>
          in if s_task s = General
             then s'\<lparr>s_latest_result := Some \<lparr>latest_task = Some (s_task s),
                       latest_features = f, latest_prediction = None,
                       latest_prediction_id = None, latest_lifestyle = s_lifestyle s,
                       latest_symptoms = s_symptoms s\<rparr>\<rparr>
             else s')"

text \<open>
  \<open>onAnalyze\<close> in two parts: the call of \<open>predictWithFeatures\<close> it makes (none when
  \<open>haveIngest\<close> is false), and the state after the awaited call has ended.
\<close>

definition onAnalyze_request :: "upload_state \<Rightarrow> predict_request option" where
  "onAnalyze_request s =
     (if \<not> haveIngest (s_reportId s) then None
      else Some \<lparr>req_task = s_task s, req_features = s_features s,
                  req_report_id = (if haveIngest (s_reportId s) then s_reportId s else None)\<rparr>)"

definition onAnalyze :: "upload_state \<Rightarrow> string + prediction_response \<Rightarrow> upload_state" where
  "onAnalyze s outcome =
     (if \<not> haveIngest (s_reportId s) then s
      else case outcome of
        Inl msg \<Rightarrow> s\<lparr>s_loading := False, s_error := Some msg\<rparr>
      | Inr pred \<Rightarrow>
          s\<lparr>s_loading := False, s_error := None, s_result := Some pred,
            s_latest_result := Some \<lparr>latest_task = Some (s_task s),
              latest_features = s_features s,
              latest_prediction = Some (prediction_of pred),
              latest_prediction_id = Some (pred_prediction_id pred),
              latest_lifestyle = s_lifestyle s, latest_symptoms = s_symptoms s\<rparr>\<rparr>)"

text \<open>
  The button that runs \<open>onAnalyze\<close>. It is rendered inside \<open>{haveIngest && ...}\<close>, in the
  branch \<open>task === 'general' ? ... : ...\<close> for the other tasks, with
  \<open>disabled={!canAnalyze || loading}\<close>; \<open>onAnalyze\<close> has no other caller.
\<close>

datatype button = NotRendered | Disabled | Enabled

definition analyzeButton :: "(jsval \<Rightarrow> jsnum) \<Rightarrow> upload_state \<Rightarrow> button" where
  "analyzeButton Number s =
     (if \<not> haveIngest (s_reportId s) then NotRendered
      else if s_task s = General then NotRendered
      else if \<not> canAnalyze Number (s_reportId s) (s_task s) (s_missing s) (s_features s)
              \<or> s_loading s
      then Disabled else Enabled)"

definition click_analyze :: "(jsval \<Rightarrow> jsnum) \<Rightarrow> upload_state \<Rightarrow> predict_request option" where
  "click_analyze Number s =
     (if analyzeButton Number s = Enabled then onAnalyze_request s else None)"

text \<open>
  The task \<open>select\<close> of the Upload page has all four options; its handler is
  \<open>setTask(e.target.value as Task)\<close> and changes nothing else.
\<close>

definition setTask :: "Task \<Rightarrow> upload_state \<Rightarrow> upload_state" where
  "setTask t s = s\<lparr>s_task := t\<rparr>"

text \<open>
  \<open>havePred\<close> is \<open>!!result?.pred\<close>. \<open>onGetAdvice\<close> returns the \<open>reportData\<close> it
  navigates to the Triage page with (nothing when \<open>havePred\<close> is false). Its button is
  rendered under \<open>result && result.pred\<close>, for every task, with \<open>disabled={loading}\<close>.
\<close>

definition havePred :: "upload_state \<Rightarrow> bool" where
  "havePred s = (s_result s \<noteq> None)"

definition onGetAdvice :: "upload_state \<Rightarrow> latest_result option" where
  "onGetAdvice s =
     (if \<not> havePred s then None
      else Some \<lparr>latest_task = Some (s_task s), latest_features = s_features s,
             latest_prediction = map_option prediction_of (s_result s),
             latest_prediction_id = map_option pred_prediction_id (s_result s),
             latest_lifestyle = s_lifestyle s, latest_symptoms = s_symptoms s\<rparr>)"

definition click_advice :: "upload_state \<Rightarrow> latest_result option" where
  "click_advice s = (if s_result s \<noteq> None \<and> \<not> s_loading s then onGetAdvice s else None)"

text \<open>
  The first effect of the Triage page (\<open>web/src/pages/Triage.tsx\<close>, 16-37), as far as
  it writes \<open>latest_result\<close>: report data passed by the navigation is stored as it is.
\<close>

definition triage_mount :: "latest_result option \<Rightarrow> latest_result option \<Rightarrow> latest_result option"
where
  "triage_mount navigationData stored =
     (case navigationData of Some d \<Rightarrow> Some d | None \<Rightarrow> stored)"

section \<open>History page and Manual page: the other callers of the prediction\<close>

text \<open>
  The \<open>Analyze\<close> button of the History page (\<open>web/src/pages/Login.tsx\<close>): the call of
  \<open>predictWithFeatures\<close> it makes, if any, and the object it navigates with.
\<close>

definition history_task :: "latest_result \<Rightarrow> Task" where
  "history_task latest = (case latest_task latest of None \<Rightarrow> General | Some t \<Rightarrow> t)"

definition history_analyze_request :: "latest_result \<Rightarrow> predict_request option" where
  "history_analyze_request latest =
     (let features = latest_features latest; task = history_task latest in
      if task \<noteq> General \<and> latest_prediction latest \<noteq> None then None
      else if task \<noteq> General
      then Some \<lparr>req_task = task, req_features = features,
                  req_report_id = latest_prediction_id latest\<rparr>
      else None)"

definition history_analyze ::
  "latest_result \<Rightarrow> string + prediction_response \<Rightarrow> latest_result"
where
  "history_analyze latest outcome =
     (let task = history_task latest in
      if task \<noteq> General \<and> latest_prediction latest \<noteq> None then latest
      else if task \<noteq> General
      then (case outcome of
              Inl msg \<Rightarrow> latest
            | Inr pred \<Rightarrow> latest\<lparr>latest_prediction := Some (prediction_of pred),
                               latest_prediction_id := Some (pred_prediction_id pred)\<rparr>)
      else latest)"

text \<open>
  The Manual page (\<open>pages/Manual\<close>, in \<open>src/unnamed/part_001\<close>). Its task starts as
  \<open>'heart'\<close>; the only code that changes it is the \<open>onChange\<close> of a \<open>select\<close>,
  \<open>setTask(e.target.value as Task)\<close>, and that \<open>select\<close> has three \<open>option\<close>
  elements. A change event of a \<open>select\<close> carries the value of one of its options, so
  the event is the option chosen and the handler has no test of its own.
\<close>

record manual_state =
  m_task :: Task
  m_features :: jsobject

definition manual_initial :: manual_state where
  "manual_initial = \<lparr>m_task = Heart, m_features = Map.empty\<rparr>"

datatype manual_option = OptionHeart | OptionDiabetes | OptionParkinsons

fun option_value :: "manual_option \<Rightarrow> Task" where
  "option_value OptionHeart = Heart"
| "option_value OptionDiabetes = Diabetes"
| "option_value OptionParkinsons = Parkinsons"

text \<open>
  Selecting a task reloads the schema; when that request succeeds (the flag of
  \<open>SelectTask\<close>) the features are emptied.
\<close>

datatype manual_event = SelectTask manual_option bool | EditFeature string string

fun manual_step :: "manual_state \<Rightarrow> manual_event \<Rightarrow> manual_state" where
  "manual_step s (SelectTask opt schema_ok) =
     (if schema_ok then s\<lparr>m_task := option_value opt, m_features := Map.empty\<rparr>
      else s\<lparr>m_task := option_value opt\<rparr>)"
| "manual_step s (EditFeature k v) = s\<lparr>m_features := (m_features s)(k \<mapsto> JStr v)\<rparr>"

definition onPredict_request :: "manual_state \<Rightarrow> predict_request" where
  "onPredict_request s =
     \<lparr>req_task = m_task s, req_features = m_features s, req_report_id = None\<rparr>"

section \<open>Risk wording\<close>

text \<open>
  The greeting of the Triage page (\<open>const riskLevel = label === 1 ? ...\<close>), computed from
  the stored result, and \<open>getRiskLevel\<close> of the History page, which returns a text and a
  colour class (its icon is left out).
\<close>

definition riskLevel :: "latest_result \<Rightarrow> string option" where
  "riskLevel latest =
     (case latest_prediction latest of
        None \<Rightarrow> None
      | Some p \<Rightarrow> Some (if label p = Fin 1 then ''higher risk'' else ''lower risk''))"

definition getRiskLevel :: "jsnum \<Rightarrow> jsnum \<Rightarrow> string \<times> string" where
  "getRiskLevel lbl prob =
     (if lbl = Fin 1 then (''Higher Risk'', ''text-red-600 bg-red-50'')
      else (''Lower Risk'', ''text-green-600 bg-green-50''))"

section \<open>Chat history in localStorage\<close>

text \<open>
  \<open>Array.prototype.slice(start)\<close>: a negative \<open>start\<close> counts from the end, and both
  ends are clamped to the array.
\<close>

definition slice :: "int \<Rightarrow> 'a list \<Rightarrow> 'a list" where
  "slice start xs =
     (let len = int (length xs);
          k = (if start < 0 then max (len + start) 0 else min start len)
      in drop (nat k) xs)"

text \<open>
  A chat message as it is serialised: the floating chatbot's messages carry an \<open>id\<close>,
  those of the Triage page do not. Times are milliseconds.
\<close>

record message =
  msg_id :: "nat option"
  msg_role :: string
  msg_content :: string
  msg_timestamp :: "nat option"

type_synonym localStorage = "string \<rightharpoonup> message list"

text \<open>The outcome of the awaited triage request: a summary, or a failure message.\<close>

datatype outcome = Reply string | Failure string

text \<open>
  The writes of \<open>ask\<close> (Triage page) to \<open>localStorage\<close>. \<open>messages\<close> is the array the
  closure holds, \<open>has_latest\<close> says whether a report is loaded, \<open>fmt\<close> stands for
  \<open>formatMedicalResponse\<close>, \<open>now\<close> for the time of the call and \<open>later\<close> for the
  time at which the request has ended. \<open>trim\<close> is the builtin
  \<open>String.prototype.trim\<close>; like \<open>Number\<close> it is a parameter of the model, so that
  \<open>!q.trim()\<close> is \<open>trim q = []\<close> whatever white space the builtin strips.
\<close>

definition ask ::
  "(string \<Rightarrow> string) \<Rightarrow> (string \<Rightarrow> string) \<Rightarrow> nat \<Rightarrow> nat \<Rightarrow> bool \<Rightarrow> message list \<Rightarrow> string \<Rightarrow> outcome
     \<Rightarrow> localStorage \<Rightarrow> localStorage"
where
  "ask trim fmt now later has_latest messages q out ls =
     (if \<not> has_latest then ls
      else if trim q = [] then ls
      else
        let userMessage = \<lparr>msg_id = None, msg_role = ''user'', msg_content = q,
              msg_timestamp = Some now\<rparr>
        in case out of
          Reply summary \<Rightarrow>
            let assistantMessage = \<lparr>msg_id = None, msg_role = ''ai'',
                  msg_content = fmt summary, msg_timestamp = Some later\<rparr>;
                sharedMessages = messages @ [userMessage, assistantMessage]
            in ls(''dr_intelligence_chat_history_triage'' \<mapsto> slice (-10) sharedMessages)
        | Failure detail \<Rightarrow>
            let errorMsg = \<lparr>msg_id = None, msg_role = ''ai'',
                  msg_content = fmt detail, msg_timestamp = Some later\<rparr>;
                sharedMessages = messages @ [\<lparr>msg_id = None, msg_role = ''user'',
                  msg_content = q, msg_timestamp = Some later\<rparr>, errorMsg]
            in ls(''dr_intelligence_chat_history_triage'' \<mapsto> slice (-10) sharedMessages))"

text \<open>
  The writes of \<open>sendMessage\<close> (floating chatbot, \<open>components/ChatBot\<close>): only the
  successful path stores the history. The \<open>id\<close> of a message is the decimal form of a
  time; it is kept as the number.
\<close>

definition sendMessage ::
  "(string \<Rightarrow> string) \<Rightarrow> (string \<Rightarrow> string) \<Rightarrow> nat \<Rightarrow> nat \<Rightarrow> bool \<Rightarrow> message list \<Rightarrow> string \<Rightarrow> outcome
     \<Rightarrow> localStorage \<Rightarrow> localStorage"
where
  "sendMessage trim fmt now later isLoading messages input out ls =
     (if trim input = [] \<or> isLoading then ls
      else
        let userMessage = \<lparr>msg_id = Some now, msg_role = ''user'',
              msg_content = trim input, msg_timestamp = Some now\<rparr>
        in case out of
          Reply summary \<Rightarrow>
            let formattedContent = fmt (if summary = [] then
                  ''I apologize, but I couldn't generate a response. Please try again.''
                  else summary);
                assistantMessage = \<lparr>msg_id = Some (later + 1), msg_role = ''assistant'',
                  msg_content = formattedContent, msg_timestamp = Some later\<rparr>;
                updatedMessages = messages @ [userMessage, assistantMessage]
            in ls(''dr_intelligence_chat_history_floating'' \<mapsto> slice (-10) updatedMessages)
        | Failure detail \<Rightarrow> ls)"

text \<open>
  Everything that writes one of the two history keys: the two handlers above and the
  \<open>removeItem\<close> calls that run when a new report is detected.
\<close>

datatype chat_event =
    TriageAsk nat nat bool "message list" string outcome
  | TriageNewReport
  | FloatingSend nat nat bool "message list" string outcome
  | FloatingNewReport

fun chat_step ::
  "(string \<Rightarrow> string) \<Rightarrow> (string \<Rightarrow> string) \<Rightarrow> localStorage \<Rightarrow> chat_event \<Rightarrow> localStorage"
where
  "chat_step trim fmt ls (TriageAsk now later has_latest messages q out) =
     ask trim fmt now later has_latest messages q out ls"
| "chat_step trim fmt ls TriageNewReport =
     ls(''dr_intelligence_chat_history_triage'' := None)"
| "chat_step trim fmt ls (FloatingSend now later isLoading messages input out) =
     sendMessage trim fmt now later isLoading messages input out ls"
| "chat_step trim fmt ls FloatingNewReport =
     ls(''dr_intelligence_chat_history_floating'' := None)"

definition chat_run ::
  "(string \<Rightarrow> string) \<Rightarrow> (string \<Rightarrow> string) \<Rightarrow> localStorage \<Rightarrow> chat_event list \<Rightarrow> localStorage"
where
  "chat_run trim fmt ls evs = foldl (chat_step trim fmt) ls evs"

text \<open>The stored history under a key has at most ten messages (or the key is absent).\<close>

definition history_bounded :: "localStorage \<Rightarrow> string \<Rightarrow> bool" where
  "history_bounded ls key = (case ls key of None \<Rightarrow> True | Some h \<Rightarrow> length h \<le> 10)"

section \<open>Sample inputs\<close>

text \<open>
  An extraction result used by the concrete instances below: six fields, each with a
  numeric confidence.
\<close>

definition example_entry :: "real \<Rightarrow> meta" where
  "example_entry c = \<lparr>meta_value = JNum (Fin 1), meta_unit = JUndefined,
     confidence = JNum (Fin c), meta_source = JUndefined\<rparr>"

definition example_meta :: extracted_meta where
  "example_meta = [(''age'', example_entry 0.99), (''chol'', example_entry 0.97),
     (''trestbps'', example_entry 0.93), (''thalach'', example_entry 0.5),
     (''sex'', example_entry 0.97), (''weight'', example_entry 0.5)]"

definition example_low :: extracted_meta where
  "example_low = [(''age'', example_entry 0.5), (''weight'', example_entry 0.5)]"

text \<open>
  A conversion to put in the place of \<open>Number\<close> in the concrete instances: it agrees
  with the builtin on \<open>undefined\<close>, \<open>null\<close>, booleans, numbers, the empty string and
  strings of decimal digits, and gives \<open>NaN\<close> for every other string.
\<close>

definition digit :: "char \<Rightarrow> bool" where
  "digit c = (c \<in> set ''0123456789'')"

definition Number_sample :: "jsval \<Rightarrow> jsnum" where
  "Number_sample v = (case v of
      JUndefined \<Rightarrow> NaN
    | JNull \<Rightarrow> Fin 0
    | JBool b \<Rightarrow> Fin (if b then 1 else 0)
    | JNum n \<Rightarrow> n
    | JStr s \<Rightarrow> (if s = [] then Fin 0
                 else if list_all digit s
                 then Fin (of_nat (foldl (\<lambda>n c. 10 * n + (of_char c - 48)) 0 s))
                 else NaN)
    | JObj \<Rightarrow> NaN)"

text \<open>
  A state of the Upload page after a heart report was ingested: \<open>age\<close> and \<open>chol\<close> were
  reported missing, the user has typed a cholesterol value and left the age empty.
\<close>

definition example_state :: upload_state where
  "example_state = \<lparr>s_task = Heart, s_file = True, s_loading = False, s_result = None,
     s_error = None, s_reportId = Some ''r1'',
     s_features = [''age'' \<mapsto> JStr [], ''chol'' \<mapsto> JStr ''260''],
     s_missing = [''age'', ''chol''], s_extractedMeta = [],
     s_lifestyle = Map.empty, s_symptoms = Map.empty, s_latest_result = None\<rparr>"

definition example_ingest :: ingest_response where
  "example_ingest = \<lparr>report_id = ''r2'', extracted = Some [''glucose'' \<mapsto> JNum (Fin 99)],
     missing_fields = Some [], extracted_meta = None\<rparr>"

definition example_pred :: prediction_response where
  "example_pred = \<lparr>pred_label = Fin 1, pred_probability = Fin 0.8,
     pred_health_score = Fin 18, pred_top_contributors = Some [''chol''],
     pred_prediction_id = ''p1''\<rparr>"

definition example_latest :: "Task option \<Rightarrow> prediction option \<Rightarrow> latest_result" where
  "example_latest t p = \<lparr>latest_task = t, latest_features = Map.empty,
     latest_prediction = p, latest_prediction_id = None,
     latest_lifestyle = Map.empty, latest_symptoms = Map.empty\<rparr>"

text \<open>
  A function to put in the place of \<open>trim\<close> in the concrete instances: it strips the
  ASCII white space, as the builtin does on ASCII strings.
\<close>

definition whitespace :: "char \<Rightarrow> bool" where
  "whitespace c = (c \<in> set [CHR 0x09, CHR 0x0A, CHR 0x0B, CHR 0x0C, CHR 0x0D, CHR '' ''])"

definition trim_sample :: "string \<Rightarrow> string" where
  "trim_sample q = rev (dropWhile whitespace (rev (dropWhile whitespace q)))"

definition example_message :: "nat \<Rightarrow> message" where
  "example_message n = \<lparr>msg_id = None, msg_role = ''user'', msg_content = ''hello'',
     msg_timestamp = Some n\<rparr>"

definition example_prediction :: prediction where
  "example_prediction = \<lparr>label = Fin 1, probability = Fin 0.8, health_score = Fin 18\<rparr>"

text \<open>Twelve earlier messages, the array held by the closure of \<open>ask\<close>.\<close>

definition example_history :: "message list" where
  "example_history = map example_message [1, 2, 3, 4, 5, 6, 7, 8, 9, 10, 11, 12]"

section \<open>Properties of the confidence grouping\<close>

lemmas example_defs = example_meta_def example_entry_def Object_keys_def confidence_of_def
  groups_def groups_step_def optionalConfirmationKeys_def requiredKeys_def

lemmas upload_defs = example_state_def analyzeButton_def click_analyze_def
  onAnalyze_request_def canAnalyze_def invalidMissing_def haveIngest_def
  numericFieldsByTask_def get_prop_def Number_sample_def digit_def

text \<open>Each group is the list of keys that pass its test, in the order of the keys.\<close>

lemma high_foldl:
  "high (foldl (groups_step em ms) g ks) =
     high g @ filter (\<lambda>k. k \<notin> set ms \<and> k \<noteq> ''age'' \<and> k \<noteq> ''Age''
        \<and> (\<exists>c. confidence_of em k = JNum c \<and> js_ge c (Fin 0.95))) ks"
  by (induction ks arbitrary: g) (auto simp: groups_step_def split: jsval.splits)

lemma medium_foldl:
  "medium (foldl (groups_step em ms) g ks) =
     medium g @ filter (\<lambda>k. k \<notin> set ms \<and> k \<noteq> ''age'' \<and> k \<noteq> ''Age''
        \<and> (\<exists>c. confidence_of em k = JNum c \<and> \<not> js_ge c (Fin 0.95)
              \<and> js_ge c (Fin 0.90))) ks"
  by (induction ks arbitrary: g) (auto simp: groups_step_def split: jsval.splits)

lemma low_foldl:
  "low (foldl (groups_step em ms) g ks) =
     low g @ filter (\<lambda>k. k \<notin> set ms \<and> k \<noteq> ''age'' \<and> k \<noteq> ''Age''
        \<and> (\<exists>c. confidence_of em k = JNum c \<and> \<not> js_ge c (Fin 0.95)
              \<and> \<not> js_ge c (Fin 0.90))) ks"
  by (induction ks arbitrary: g) (auto simp: groups_step_def split: jsval.splits)

lemma in_high:
  "k \<in> set (high (groups em ms)) \<longleftrightarrow>
     k \<in> set (Object_keys em) \<and> k \<notin> set ms \<and> k \<noteq> ''age'' \<and> k \<noteq> ''Age''
     \<and> (\<exists>c. confidence_of em k = JNum c \<and> js_ge c (Fin 0.95))"
  by (auto simp: groups_def high_foldl)

lemma in_medium:
  "k \<in> set (medium (groups em ms)) \<longleftrightarrow>
     k \<in> set (Object_keys em) \<and> k \<notin> set ms \<and> k \<noteq> ''age'' \<and> k \<noteq> ''Age''
     \<and> (\<exists>c. confidence_of em k = JNum c \<and> \<not> js_ge c (Fin 0.95) \<and> js_ge c (Fin 0.90))"
  by (auto simp: groups_def medium_foldl)

lemma in_low:
  "k \<in> set (low (groups em ms)) \<longleftrightarrow>
     k \<in> set (Object_keys em) \<and> k \<notin> set ms \<and> k \<noteq> ''age'' \<and> k \<noteq> ''Age''
     \<and> (\<exists>c. confidence_of em k = JNum c \<and> \<not> js_ge c (Fin 0.95)
           \<and> \<not> js_ge c (Fin 0.90))"
  by (auto simp: groups_def low_foldl)

lemma set_Set_from: "set (Set_from seen xs) = set seen \<union> set xs"
  by (induction seen xs rule: Set_from.induct) auto

lemma distinct_Set_from: "distinct seen \<Longrightarrow> distinct (Set_from seen xs)"
  by (induction seen xs rule: Set_from.induct) auto

lemma in_requiredKeys:
  "k \<in> set (requiredKeys em ms) \<longleftrightarrow>
     (k \<in> set ms \<or> k \<in> set (low (groups em ms)))
     \<and> k \<noteq> ''age'' \<and> k \<noteq> ''Age'' \<and> k \<noteq> ''sex''"
  by (auto simp: requiredKeys_def set_Set_from)

lemma in_optionalConfirmationKeys:
  "k \<in> set (optionalConfirmationKeys em ms) \<longleftrightarrow>
     (k \<in> set (high (groups em ms)) \<or> k \<in> set (medium (groups em ms)))
     \<and> k \<noteq> ''age'' \<and> k \<noteq> ''Age'' \<and> k \<noteq> ''sex''"
  by (auto simp: optionalConfirmationKeys_def)

text \<open>
  Claim C1, as amended. For every key of \<open>extractedMeta\<close> other than \<open>age\<close> and \<open>Age\<close>
  that is not listed as missing and whose confidence is a number, the grouping uses the
  thresholds 0.95 and 0.90: the key is in the group \<open>high\<close> exactly when its confidence
  is at least 0.95, and in the group \<open>medium\<close> exactly when its confidence is at least
  0.90 and below 0.95. The keys \<open>age\<close> and \<open>Age\<close> are skipped by the grouping: for
  every extraction result and every missing list they are in none of the three groups.
\<close>

theorem groups_thresholds:
  "(k \<in> set (Object_keys em) \<and> k \<notin> set missing \<and> k \<noteq> ''age'' \<and> k \<noteq> ''Age''
      \<and> confidence_of em k = JNum c \<longrightarrow>
        (k \<in> set (high (groups em missing)) \<longleftrightarrow> js_ge c (Fin 0.95))
      \<and> (k \<in> set (medium (groups em missing)) \<longleftrightarrow>
            js_ge c (Fin 0.90) \<and> js_lt c (Fin 0.95)))
   \<and> ''age'' \<notin> set (high (groups em missing))
   \<and> ''age'' \<notin> set (medium (groups em missing))
   \<and> ''age'' \<notin> set (low (groups em missing))
   \<and> ''Age'' \<notin> set (high (groups em missing))
   \<and> ''Age'' \<notin> set (medium (groups em missing))
   \<and> ''Age'' \<notin> set (low (groups em missing))"
proof -
  have lit: "js_ge c (Fin 0.90) \<and> js_lt c (Fin 0.95) \<longleftrightarrow>
        \<not> js_ge c (Fin 0.95) \<and> js_ge c (Fin 0.90)"
    by (cases c) auto
  have thresholds: "k \<in> set (Object_keys em) \<and> k \<notin> set missing \<and> k \<noteq> ''age'' \<and> k \<noteq> ''Age''
      \<and> confidence_of em k = JNum c \<longrightarrow>
        (k \<in> set (high (groups em missing)) \<longleftrightarrow> js_ge c (Fin 0.95))
      \<and> (k \<in> set (medium (groups em missing)) \<longleftrightarrow>
            js_ge c (Fin 0.90) \<and> js_lt c (Fin 0.95))"
    using lit by (simp add: in_high in_medium)
  have a1: "''age'' \<notin> set (high (groups em missing))" by (simp add: in_high)
  have a2: "''age'' \<notin> set (medium (groups em missing))" by (simp add: in_medium)
  have a3: "''age'' \<notin> set (low (groups em missing))" by (simp add: in_low)
  have b1: "''Age'' \<notin> set (high (groups em missing))" by (simp add: in_high)
  have b2: "''Age'' \<notin> set (medium (groups em missing))" by (simp add: in_medium)
  have b3: "''Age'' \<notin> set (low (groups em missing))" by (simp add: in_low)
  from thresholds a1 a2 a3 b1 b2 b3 show ?thesis by (intro conjI)
qed

text \<open>
  The theorem at \<open>chol\<close> (confidence 0.97) and at \<open>trestbps\<close> (confidence 0.93) of the
  sample result, in which \<open>age\<close> has confidence 0.99.
\<close>

theorem groups_thresholds_witness:
  "''chol'' \<in> set (high (groups example_meta []))
   \<and> ''chol'' \<notin> set (medium (groups example_meta []))
   \<and> ''trestbps'' \<in> set (medium (groups example_meta []))
   \<and> ''trestbps'' \<notin> set (high (groups example_meta []))
   \<and> ''age'' \<notin> set (high (groups example_meta []))
   \<and> ''Age'' \<notin> set (high (groups example_meta []))"
  using groups_thresholds [of "''chol''" example_meta "[]" "Fin 0.97"]
    groups_thresholds [of "''trestbps''" example_meta "[]" "Fin 0.93"]
  by (simp add: example_meta_def example_entry_def Object_keys_def confidence_of_def)

text \<open>
  The claim as first stated fails at \<open>age\<close>: extracted with confidence 0.99 and not
  listed as missing, it is in no group.
\<close>

theorem groups_thresholds_counterexample:
  "''age'' \<in> set (Object_keys example_meta) \<and> ''age'' \<notin> set []
   \<and> confidence_of example_meta ''age'' = JNum (Fin 0.99) \<and> js_ge (Fin 0.99) (Fin 0.95)
   \<and> ''age'' \<notin> set (high (groups example_meta []))
   \<and> ''age'' \<notin> set (medium (groups example_meta []))
   \<and> ''age'' \<notin> set (low (groups example_meta []))"
  by (simp add: example_defs)

text \<open>
  Claim C2, as amended. A key other than \<open>age\<close> and \<open>Age\<close> that is not listed as
  missing and whose confidence is at least 0.95 is in the group \<open>high\<close>, in neither of
  the groups \<open>medium\<close> and \<open>low\<close>, and not among the required inputs; the list offered
  to the user for optional confirmation does contain it, unless the key is \<open>sex\<close>.
\<close>

theorem high_confidence_offered_for_confirmation:
  assumes "k \<in> set (Object_keys em)" and "k \<notin> set missing"
    and "k \<noteq> ''age''" and "k \<noteq> ''Age''"
    and "confidence_of em k = JNum c" and "js_ge c (Fin 0.95)"
  shows "k \<in> set (high (groups em missing))
       \<and> k \<notin> set (medium (groups em missing))
       \<and> k \<notin> set (low (groups em missing))
       \<and> k \<notin> set (requiredKeys em missing)
       \<and> (k \<in> set (optionalConfirmationKeys em missing) \<longleftrightarrow> k \<noteq> ''sex'')"
  using assms
  by (auto simp: in_high in_medium in_low in_requiredKeys in_optionalConfirmationKeys)

theorem high_confidence_offered_for_confirmation_witness:
  "''chol'' \<in> set (high (groups example_meta []))
   \<and> ''chol'' \<notin> set (medium (groups example_meta []))
   \<and> ''chol'' \<notin> set (low (groups example_meta []))
   \<and> ''chol'' \<notin> set (requiredKeys example_meta [])
   \<and> ''chol'' \<in> set (optionalConfirmationKeys example_meta [])"
  using high_confidence_offered_for_confirmation [of "''chol''" example_meta "[]" "Fin 0.97"]
  by (simp add: example_meta_def example_entry_def Object_keys_def confidence_of_def)

text \<open>
  The claim as first stated fails at \<open>chol\<close> with confidence 0.97: both versions of the
  page put it in the list shown under "Optional Confirmation Needed".
\<close>

theorem high_confidence_counterexample:
  "confidence_of example_meta ''chol'' = JNum (Fin 0.97) \<and> js_ge (Fin 0.97) (Fin 0.95)
   \<and> ''chol'' \<in> set (optionalConfirmationKeys example_meta [])
   \<and> ''chol'' \<in> set (optionalConfirmationKeys_part_000 example_meta [])"
  by (simp add: example_defs optionalConfirmationKeys_part_000_def groups_part_000_def
      groups_step_part_000_def)

text \<open>
  Claim C3, as amended. A key whose confidence is a number below 0.90 is never offered
  for optional confirmation, and it is among the required inputs exactly when it is
  none of \<open>age\<close>, \<open>Age\<close> and \<open>sex\<close>, whatever a schema says about the field. The
  required inputs are the missing fields together with the group \<open>low\<close>, less those
  three keys.
\<close>

theorem low_confidence_required:
  assumes "k \<in> set (Object_keys em)"
    and "confidence_of em k = JNum c" and "js_lt c (Fin 0.90)"
  shows "(k \<in> set (requiredKeys em missing) \<longleftrightarrow>
            k \<noteq> ''age'' \<and> k \<noteq> ''Age'' \<and> k \<noteq> ''sex'')
       \<and> k \<notin> set (optionalConfirmationKeys em missing)
       \<and> set (requiredKeys em missing) =
           (set missing \<union> set (low (groups em missing))) - {''age'', ''Age'', ''sex''}"
proof -
  from assms(3) have ng: "\<not> js_ge c (Fin 0.90)" "\<not> js_ge c (Fin 0.95)"
    by (cases c; simp)+
  have "k \<in> set (requiredKeys em missing) \<longleftrightarrow> k \<noteq> ''age'' \<and> k \<noteq> ''Age'' \<and> k \<noteq> ''sex''"
    using assms(1,2) ng by (auto simp: in_requiredKeys in_low)
  moreover have "k \<notin> set (optionalConfirmationKeys em missing)"
    using assms(2) ng by (auto simp: in_optionalConfirmationKeys in_high in_medium)
  moreover have "set (requiredKeys em missing) =
           (set missing \<union> set (low (groups em missing))) - {''age'', ''Age'', ''sex''}"
    by (auto simp: in_requiredKeys)
  ultimately show ?thesis by blast
qed

theorem low_confidence_required_witness:
  "''thalach'' \<in> set (requiredKeys example_meta [''ca''])
   \<and> ''thalach'' \<notin> set (optionalConfirmationKeys example_meta [''ca''])
   \<and> set (requiredKeys example_meta [''ca'']) =
       (set [''ca''] \<union> set (low (groups example_meta [''ca'']))) - {''age'', ''Age'', ''sex''}"
proof -
  have h1: "''thalach'' \<in> set (Object_keys example_meta)"
    by (simp add: example_meta_def Object_keys_def)
  have h2: "confidence_of example_meta ''thalach'' = JNum (Fin 0.5)"
    by (simp add: example_meta_def example_entry_def confidence_of_def)
  have h3: "js_lt (Fin 0.5) (Fin 0.90)" by simp
  have ne: "''thalach'' \<noteq> ''age'' \<and> ''thalach'' \<noteq> ''Age'' \<and> ''thalach'' \<noteq> ''sex''"
    by simp
  note t = low_confidence_required [OF h1 h2 h3, of "[''ca'']"]
  have a: "''thalach'' \<in> set (requiredKeys example_meta [''ca''])"
    using t [THEN conjunct1] ne by (rule iffD2)
  from a t [THEN conjunct2] show ?thesis by (rule conjI)
qed

text \<open>
  The claim as first stated fails on both sides. \<open>age\<close>, an input of the heart model,
  extracted with confidence 0.5, is not among the required inputs; \<open>weight\<close>, which is
  no input of the heart model, extracted with the same confidence, is.
\<close>

theorem low_confidence_counterexample:
  "confidence_of example_low ''age'' = JNum (Fin 0.5)
   \<and> confidence_of example_low ''weight'' = JNum (Fin 0.5)
   \<and> js_lt (Fin 0.5) (Fin 0.90)
   \<and> ''age'' \<in> set (numericFieldsByTask Heart)
   \<and> ''age'' \<notin> set (requiredKeys example_low [])
   \<and> ''weight'' \<notin> set (numericFieldsByTask Heart)
   \<and> ''weight'' \<in> set (requiredKeys example_low [])"
  by (simp add: example_low_def example_entry_def Object_keys_def confidence_of_def
      groups_def groups_step_def requiredKeys_def numericFieldsByTask_def)

section \<open>The lists shown to the user partition the classified keys\<close>

lemma distinct_groups:
  assumes "distinct (Object_keys em)"
  shows "distinct (high (groups em ms) @ medium (groups em ms) @ low (groups em ms))"
  using assms by (auto simp: groups_def high_foldl medium_foldl low_foldl)

text \<open>
  Claim C4, as amended. For an extraction result whose keys are pairwise different, the
  three groups are free of duplicates, pairwise disjoint and disjoint from the missing
  list; the optional-confirmation list and the required-input list are free of
  duplicates and disjoint; and the two lists together hold exactly the keys other than
  \<open>age\<close>, \<open>Age\<close> and \<open>sex\<close> that are listed as missing or have a numeric confidence.
  Those three keys, and unlisted keys without a numeric confidence, are in neither list.
\<close>

theorem triage_partition:
  assumes "distinct (Object_keys em)"
  shows "distinct (high (groups em missing) @ medium (groups em missing)
           @ low (groups em missing))
       \<and> set (high (groups em missing) @ medium (groups em missing)
           @ low (groups em missing)) \<inter> set missing = {}
       \<and> distinct (optionalConfirmationKeys em missing @ requiredKeys em missing)
       \<and> set (optionalConfirmationKeys em missing @ requiredKeys em missing) =
           {k \<in> set (Object_keys em) \<union> set missing.
              k \<noteq> ''age'' \<and> k \<noteq> ''Age'' \<and> k \<noteq> ''sex''
              \<and> (k \<in> set missing \<or> (\<exists>c. confidence_of em k = JNum c))}"
proof -
  have d: "distinct (high (groups em missing) @ medium (groups em missing)
             @ low (groups em missing))"
    by (rule distinct_groups [OF assms])
  have m: "set (high (groups em missing) @ medium (groups em missing)
             @ low (groups em missing)) \<inter> set missing = {}"
    by (auto simp: in_high in_medium in_low)
  have dr: "distinct (requiredKeys em missing)"
    by (simp add: requiredKeys_def distinct_Set_from)
  have "distinct (high (groups em missing) @ medium (groups em missing))"
    using d by auto
  then have dopt: "distinct (optionalConfirmationKeys em missing)"
    unfolding optionalConfirmationKeys_def Let_def by (rule distinct_filter)
  have disj: "set (optionalConfirmationKeys em missing) \<inter> set (requiredKeys em missing) = {}"
    by (auto simp: in_optionalConfirmationKeys in_requiredKeys in_high in_medium in_low)
  have cover: "set (optionalConfirmationKeys em missing @ requiredKeys em missing) =
           {k \<in> set (Object_keys em) \<union> set missing.
              k \<noteq> ''age'' \<and> k \<noteq> ''Age'' \<and> k \<noteq> ''sex''
              \<and> (k \<in> set missing \<or> (\<exists>c. confidence_of em k = JNum c))}"
    by (auto simp: in_optionalConfirmationKeys in_requiredKeys in_high in_medium in_low)
  from d m dr dopt disj cover show ?thesis by simp
qed

theorem triage_partition_witness:
  "distinct (Object_keys example_meta)
   \<and> (distinct (high (groups example_meta [''ca'']) @ medium (groups example_meta [''ca''])
           @ low (groups example_meta [''ca'']))
       \<and> set (high (groups example_meta [''ca'']) @ medium (groups example_meta [''ca''])
           @ low (groups example_meta [''ca''])) \<inter> set [''ca''] = {}
       \<and> distinct (optionalConfirmationKeys example_meta [''ca'']
           @ requiredKeys example_meta [''ca''])
       \<and> set (optionalConfirmationKeys example_meta [''ca'']
           @ requiredKeys example_meta [''ca'']) =
           {k \<in> set (Object_keys example_meta) \<union> set [''ca''].
              k \<noteq> ''age'' \<and> k \<noteq> ''Age'' \<and> k \<noteq> ''sex''
              \<and> (k \<in> set [''ca''] \<or> (\<exists>c. confidence_of example_meta k = JNum c))})"
proof -
  have h: "distinct (Object_keys example_meta)"
    by (simp add: example_meta_def Object_keys_def)
  show ?thesis by (rule conjI [OF h triage_partition [OF h]])
qed

text \<open>
  The claim as first stated fails at \<open>age\<close>, an input of the heart model: extracted with
  confidence 0.99 and not listed as missing, it is in no group and in neither list.
\<close>

theorem triage_partition_counterexample:
  "''age'' \<in> set (numericFieldsByTask Heart)
   \<and> ''age'' \<in> set (Object_keys example_meta)
   \<and> ''age'' \<notin> set (high (groups example_meta []) @ medium (groups example_meta [])
         @ low (groups example_meta []))
   \<and> ''age'' \<notin> set (optionalConfirmationKeys example_meta [] @ requiredKeys example_meta [])
   \<and> ''age'' \<notin> set []"
  by (simp add: example_defs numericFieldsByTask_def)

section \<open>Validation of the missing fields and the analyze button\<close>

lemma invalidMissing_loop_eq:
  "invalidMissing_loop N nums f ks bad =
     bad @ filter (\<lambda>k. k \<noteq> ''age'' \<and> k \<noteq> ''Age''
        \<and> (get_prop f k = JStr [] \<or> get_prop f k = JNull \<or> get_prop f k = JUndefined
            \<or> (k \<in> set nums \<and> \<not> isFinite (N (get_prop f k))))) ks"
  by (induction ks arbitrary: bad) (auto simp: Let_def)

lemma in_invalidMissing:
  "k \<in> set (invalidMissing N r t ms f) \<longleftrightarrow>
     haveIngest r \<and> k \<in> set ms \<and> k \<noteq> ''age'' \<and> k \<noteq> ''Age''
     \<and> (get_prop f k = JStr [] \<or> get_prop f k = JNull \<or> get_prop f k = JUndefined
         \<or> (k \<in> set (numericFieldsByTask t) \<and> \<not> isFinite (N (get_prop f k))))"
  by (auto simp: invalidMissing_def invalidMissing_loop_eq)

lemma get_prop_upd_other: "k \<noteq> a \<Longrightarrow> get_prop (f(a := v)) k = get_prop f k"
  by (simp add: get_prop_def)

text \<open>
  Claim C5, as amended. In every state in which some missing field other than \<open>age\<close>
  and \<open>Age\<close> has an empty value (\<open>''\<close>, \<open>null\<close> or \<open>undefined\<close>), or a value that does
  not convert to a finite number although the field is in the numeric set of the task,
  \<open>canAnalyze\<close> is false, the analyze button is not enabled, and no prediction is
  requested.
\<close>

theorem invalid_missing_blocks_analysis:
  assumes "k \<in> set (s_missing s)" and "k \<noteq> ''age''" and "k \<noteq> ''Age''"
    and "get_prop (s_features s) k = JStr [] \<or> get_prop (s_features s) k = JNull
         \<or> get_prop (s_features s) k = JUndefined
         \<or> (k \<in> set (numericFieldsByTask (s_task s))
             \<and> \<not> isFinite (Number (get_prop (s_features s) k)))"
  shows "\<not> canAnalyze Number (s_reportId s) (s_task s) (s_missing s) (s_features s)
       \<and> analyzeButton Number s \<noteq> Enabled
       \<and> click_analyze Number s = None"
proof -
  have nc: "\<not> canAnalyze Number (s_reportId s) (s_task s) (s_missing s) (s_features s)"
  proof
    assume c: "canAnalyze Number (s_reportId s) (s_task s) (s_missing s) (s_features s)"
    then have h: "haveIngest (s_reportId s)"
      and e: "invalidMissing Number (s_reportId s) (s_task s) (s_missing s) (s_features s) = []"
      by (simp_all add: canAnalyze_def)
    from assms h
    have "k \<in> set (invalidMissing Number (s_reportId s) (s_task s) (s_missing s) (s_features s))"
      by (simp add: in_invalidMissing)
    with e show False by simp
  qed
  then show ?thesis by (simp add: analyzeButton_def click_analyze_def)
qed

text \<open>The theorem at \<open>chol\<close>, once left empty and once filled with \<open>abc\<close>.\<close>

theorem invalid_missing_blocks_analysis_witness:
  "click_analyze Number_sample
     (example_state\<lparr>s_features := [''age'' \<mapsto> JStr ''54'', ''chol'' \<mapsto> JStr []]\<rparr>) = None
   \<and> click_analyze Number_sample
     (example_state\<lparr>s_features := [''age'' \<mapsto> JStr ''54'', ''chol'' \<mapsto> JStr ''abc'']\<rparr>) = None"
  using invalid_missing_blocks_analysis [of "''chol''"
      "example_state\<lparr>s_features := [''age'' \<mapsto> JStr ''54'', ''chol'' \<mapsto> JStr []]\<rparr>"
      Number_sample]
    invalid_missing_blocks_analysis [of "''chol''"
      "example_state\<lparr>s_features := [''age'' \<mapsto> JStr ''54'', ''chol'' \<mapsto> JStr ''abc'']\<rparr>"
      Number_sample]
  by (simp add: example_state_def get_prop_def numericFieldsByTask_def Number_sample_def
      digit_def)

text \<open>
  The claim as first stated fails at \<open>age\<close>: it is listed as missing and its value is
  empty, and the analyze button is enabled and requests a prediction.
\<close>

theorem invalid_missing_counterexample:
  "''age'' \<in> set (s_missing example_state)
   \<and> get_prop (s_features example_state) ''age'' = JStr []
   \<and> canAnalyze Number_sample (s_reportId example_state) (s_task example_state)
       (s_missing example_state) (s_features example_state)
   \<and> analyzeButton Number_sample example_state = Enabled
   \<and> click_analyze Number_sample example_state \<noteq> None"
  by (simp add: upload_defs)

text \<open>
  Claim C9. For every extraction result and every missing list, \<open>age\<close>, \<open>Age\<close> and
  \<open>sex\<close> are in neither the required-input list nor the optional-confirmation list;
  \<open>age\<close> and \<open>Age\<close> are never reported by the validity check, and neither listing them
  as missing nor their values change that check or \<open>canAnalyze\<close>.
\<close>

theorem age_sex_exempt:
  "''age'' \<notin> set (requiredKeys em missing) \<and> ''Age'' \<notin> set (requiredKeys em missing)
   \<and> ''sex'' \<notin> set (requiredKeys em missing)
   \<and> ''age'' \<notin> set (optionalConfirmationKeys em missing)
   \<and> ''Age'' \<notin> set (optionalConfirmationKeys em missing)
   \<and> ''sex'' \<notin> set (optionalConfirmationKeys em missing)
   \<and> ''age'' \<notin> set (invalidMissing Number reportId task missing features)
   \<and> ''Age'' \<notin> set (invalidMissing Number reportId task missing features)
   \<and> invalidMissing Number reportId task missing features =
       invalidMissing Number reportId task
         (filter (\<lambda>k. k \<noteq> ''age'' \<and> k \<noteq> ''Age'') missing)
         (features(''age'' := a, ''Age'' := b))
   \<and> canAnalyze Number reportId task missing features =
       canAnalyze Number reportId task
         (filter (\<lambda>k. k \<noteq> ''age'' \<and> k \<noteq> ''Age'') missing)
         (features(''age'' := a, ''Age'' := b))"
proof -
  have eq: "invalidMissing Number reportId task missing features =
       invalidMissing Number reportId task
         (filter (\<lambda>k. k \<noteq> ''age'' \<and> k \<noteq> ''Age'') missing)
         (features(''age'' := a, ''Age'' := b))"
    unfolding invalidMissing_def invalidMissing_loop_eq
    by (auto simp: get_prop_upd_other intro!: filter_cong)
  have "canAnalyze Number reportId task missing features =
       canAnalyze Number reportId task
         (filter (\<lambda>k. k \<noteq> ''age'' \<and> k \<noteq> ''Age'') missing)
         (features(''age'' := a, ''Age'' := b))"
    unfolding canAnalyze_def using eq by simp
  with eq show ?thesis
    by (simp add: in_requiredKeys in_optionalConfirmationKeys in_invalidMissing)
qed

text \<open>
  The theorem at the sample extraction result with \<open>age\<close> and \<open>sex\<close> listed as missing
  and \<open>age\<close> left empty.
\<close>

theorem age_sex_exempt_witness:
  "''age'' \<notin> set (requiredKeys example_meta [''age'', ''sex''])
   \<and> ''Age'' \<notin> set (requiredKeys example_meta [''age'', ''sex''])
   \<and> ''sex'' \<notin> set (requiredKeys example_meta [''age'', ''sex''])
   \<and> ''age'' \<notin> set (optionalConfirmationKeys example_meta [''age'', ''sex''])
   \<and> ''Age'' \<notin> set (optionalConfirmationKeys example_meta [''age'', ''sex''])
   \<and> ''sex'' \<notin> set (optionalConfirmationKeys example_meta [''age'', ''sex''])
   \<and> ''age'' \<notin> set (invalidMissing Number_sample (Some ''r1'') Heart [''age'', ''sex'']
                       [''age'' \<mapsto> JStr [], ''sex'' \<mapsto> JStr ''1''])
   \<and> ''Age'' \<notin> set (invalidMissing Number_sample (Some ''r1'') Heart [''age'', ''sex'']
                       [''age'' \<mapsto> JStr [], ''sex'' \<mapsto> JStr ''1''])
   \<and> invalidMissing Number_sample (Some ''r1'') Heart [''age'', ''sex'']
         [''age'' \<mapsto> JStr [], ''sex'' \<mapsto> JStr ''1''] =
       invalidMissing Number_sample (Some ''r1'') Heart
         (filter (\<lambda>k. k \<noteq> ''age'' \<and> k \<noteq> ''Age'') [''age'', ''sex''])
         ([''age'' \<mapsto> JStr [], ''sex'' \<mapsto> JStr ''1''](''age'' := None, ''Age'' := None))
   \<and> canAnalyze Number_sample (Some ''r1'') Heart [''age'', ''sex'']
         [''age'' \<mapsto> JStr [], ''sex'' \<mapsto> JStr ''1''] =
       canAnalyze Number_sample (Some ''r1'') Heart
         (filter (\<lambda>k. k \<noteq> ''age'' \<and> k \<noteq> ''Age'') [''age'', ''sex''])
         ([''age'' \<mapsto> JStr [], ''sex'' \<mapsto> JStr ''1''](''age'' := None, ''Age'' := None))"
  by (rule age_sex_exempt)

section \<open>Requests for a prediction\<close>

lemma manual_step_not_General:
  "m_task s \<noteq> General \<Longrightarrow> m_task (manual_step s ev) \<noteq> General"
proof (cases ev)
  case (SelectTask opt schema_ok)
  then show ?thesis by (cases opt) simp_all
next
  case (EditFeature k v)
  assume "m_task s \<noteq> General"
  with EditFeature show ?thesis by simp
qed

lemma manual_run_not_General:
  "m_task s \<noteq> General \<Longrightarrow> m_task (foldl manual_step s evs) \<noteq> General"
  by (induction evs arbitrary: s) (simp_all add: manual_step_not_General)

lemma manual_task_not_General: "m_task (foldl manual_step manual_initial evs) \<noteq> General"
  by (rule manual_run_not_General) (simp add: manual_initial_def)

text \<open>
  What holds on every path. No caller of \<open>predictWithFeatures\<close> requests a prediction
  for the general task: not the analyze button of the Upload page, not the \<open>Analyze\<close>
  button of the History page, not the Manual page after any sequence of its events. In
  general mode \<open>onSubmit\<close> stores \<open>prediction: null\<close>, leaves no result and leaves the
  analyze action unavailable. What \<open>onAnalyze\<close> stores carries the label, the
  probability and the score of the response it received.
\<close>

lemma prediction_requests_never_general:
  "(click_analyze Number s = Some rq \<longrightarrow> req_task rq \<noteq> General)
   \<and> (history_analyze_request latest = Some rq' \<longrightarrow> req_task rq' \<noteq> General)
   \<and> req_task (onPredict_request (foldl manual_step manual_initial evs)) \<noteq> General
   \<and> (s_file s \<and> s_task s = General \<longrightarrow>
        map_option latest_prediction (s_latest_result (onSubmit s (Inr ingest))) = Some None
        \<and> s_result (onSubmit s (Inr ingest)) = None
        \<and> click_analyze Number (onSubmit s (Inr ingest)) = None)
   \<and> (haveIngest (s_reportId s) \<longrightarrow>
        map_option latest_prediction (s_latest_result (onAnalyze s (Inr pred)))
          = Some (Some \<lparr>label = pred_label pred, probability = pred_probability pred,
                         health_score = pred_health_score pred\<rparr>))"
proof -
  have a: "click_analyze Number s = Some rq \<longrightarrow> req_task rq \<noteq> General"
    by (auto simp: click_analyze_def analyzeButton_def onAnalyze_request_def split: if_splits)
  have b: "history_analyze_request latest = Some rq' \<longrightarrow> req_task rq' \<noteq> General"
    by (auto simp: history_analyze_request_def Let_def split: if_splits)
  have c: "req_task (onPredict_request (foldl manual_step manual_initial evs)) \<noteq> General"
    by (simp add: onPredict_request_def manual_task_not_General)
  have d: "s_file s \<and> s_task s = General \<longrightarrow>
        map_option latest_prediction (s_latest_result (onSubmit s (Inr ingest))) = Some None
        \<and> s_result (onSubmit s (Inr ingest)) = None
        \<and> click_analyze Number (onSubmit s (Inr ingest)) = None"
    by (simp add: onSubmit_def Let_def click_analyze_def analyzeButton_def)
  have f: "haveIngest (s_reportId s) \<longrightarrow>
        map_option latest_prediction (s_latest_result (onAnalyze s (Inr pred)))
          = Some (Some \<lparr>label = pred_label pred, probability = pred_probability pred,
                         health_score = pred_health_score pred\<rparr>)"
    by (simp add: onAnalyze_def prediction_of_def)
  from a b c d f show ?thesis by (intro conjI)
qed

text \<open>
  Claim C6 fails on one path of the Upload page. A heart report is ingested and
  analysed (the analyze button is enabled, the response has label 1, probability 0.8
  and score 18); the task \<open>select\<close> is then set to \<open>general\<close>, which resets nothing;
  the button of \<open>onGetAdvice\<close> is still rendered, and its report data, which the
  Triage page writes to \<open>latest_result\<close>, has the task \<open>general\<close> together with the
  numeric prediction. On the path of \<open>onSubmit\<close> the same state stores
  \<open>prediction: null\<close> for the general task.
\<close>

theorem general_result_with_prediction:
  "analyzeButton Number_sample example_state = Enabled
   \<and> map_option latest_task
        (triage_mount
          (click_advice (setTask General (onAnalyze example_state (Inr example_pred)))) None)
       = Some (Some General)
   \<and> map_option latest_prediction
        (triage_mount
          (click_advice (setTask General (onAnalyze example_state (Inr example_pred)))) None)
       = Some (Some \<lparr>label = Fin 1, probability = Fin 0.8, health_score = Fin 18\<rparr>)
   \<and> map_option latest_prediction
        (s_latest_result (onSubmit (setTask General example_state) (Inr example_ingest)))
       = Some None"
  by (simp add: upload_defs setTask_def onAnalyze_def click_advice_def onGetAdvice_def
      havePred_def triage_mount_def prediction_of_def example_pred_def onSubmit_def
      example_ingest_def Let_def)

text \<open>
  The stored result of that path, read off the theorem: the task \<open>general\<close> with the
  prediction of the heart analysis.
\<close>

theorem general_result_with_prediction_witness:
  "map_option latest_task
        (triage_mount
          (click_advice (setTask General (onAnalyze example_state (Inr example_pred)))) None)
       = Some (Some General)
   \<and> map_option latest_prediction
        (triage_mount
          (click_advice (setTask General (onAnalyze example_state (Inr example_pred)))) None)
       = Some (Some \<lparr>label = Fin 1, probability = Fin 0.8, health_score = Fin 18\<rparr>)
   \<and> map_option latest_prediction
        (s_latest_result (onSubmit (setTask General example_state) (Inr example_ingest)))
       = Some None"
  by (rule general_result_with_prediction [THEN conjunct2])

section \<open>The risk wording does not depend on the task\<close>

text \<open>
  Claim C7, as amended. The client maps the label of the model to the risk wording by
  one fixed rule for every task. The wording of the Triage greeting depends on nothing
  but the label: two stored results with the same label read the same, whatever their
  tasks, probabilities and scores; label 1 reads "higher risk" and every other label
  reads "lower risk". \<open>getRiskLevel\<close> of the History page follows the same rule and
  ignores the probability. There is no parameter that names the adverse class of a
  task, and no task for which the convention is inverted.
\<close>

theorem risk_wording_fixed:
  assumes "map_option label (latest_prediction l1) = map_option label (latest_prediction l2)"
  shows "riskLevel l1 = riskLevel l2
       \<and> (riskLevel l1 = Some ''higher risk'' \<longleftrightarrow>
            map_option label (latest_prediction l1) = Some (Fin 1))
       \<and> (riskLevel l1 = Some ''lower risk'' \<longleftrightarrow>
            (\<exists>p. latest_prediction l1 = Some p \<and> label p \<noteq> Fin 1))
       \<and> (fst (getRiskLevel lbl prob) = ''Higher Risk'' \<longleftrightarrow> lbl = Fin 1)
       \<and> (fst (getRiskLevel lbl prob) = ''Lower Risk'' \<longleftrightarrow> lbl \<noteq> Fin 1)
       \<and> getRiskLevel lbl prob = getRiskLevel lbl prob'"
proof -
  have same: "riskLevel l1 = riskLevel l2"
  proof (cases "latest_prediction l1")
    case None
    with assms have "latest_prediction l2 = None" by simp
    with None show ?thesis by (simp add: riskLevel_def)
  next
    case (Some p)
    with assms obtain q where q: "latest_prediction l2 = Some q" and "label q = label p"
      by (cases "latest_prediction l2") auto
    with Some show ?thesis by (simp add: riskLevel_def)
  qed
  have hi: "riskLevel l1 = Some ''higher risk'' \<longleftrightarrow>
            map_option label (latest_prediction l1) = Some (Fin 1)"
    by (cases "latest_prediction l1") (auto simp: riskLevel_def)
  have lo: "riskLevel l1 = Some ''lower risk'' \<longleftrightarrow>
            (\<exists>p. latest_prediction l1 = Some p \<and> label p \<noteq> Fin 1)"
    by (cases "latest_prediction l1") (auto simp: riskLevel_def)
  have g1: "fst (getRiskLevel lbl prob) = ''Higher Risk'' \<longleftrightarrow> lbl = Fin 1"
    by (simp add: getRiskLevel_def)
  have g2: "fst (getRiskLevel lbl prob) = ''Lower Risk'' \<longleftrightarrow> lbl \<noteq> Fin 1"
    by (simp add: getRiskLevel_def)
  have g3: "getRiskLevel lbl prob = getRiskLevel lbl prob'"
    by (simp add: getRiskLevel_def)
  from same hi lo g1 g2 g3 show ?thesis by (intro conjI)
qed

text \<open>
  The theorem at a heart result and a Parkinson's result that share label 1 and differ
  in probability and score.
\<close>

theorem risk_wording_fixed_witness:
  "map_option label (latest_prediction (example_latest (Some Heart) (Some example_prediction)))
     = map_option label (latest_prediction (example_latest (Some Parkinsons)
         (Some (example_prediction\<lparr>probability := Fin 0.2, health_score := Fin 80\<rparr>))))
   \<and> riskLevel (example_latest (Some Heart) (Some example_prediction)) =
       riskLevel (example_latest (Some Parkinsons)
         (Some (example_prediction\<lparr>probability := Fin 0.2, health_score := Fin 80\<rparr>)))"
proof -
  have h: "map_option label
      (latest_prediction (example_latest (Some Heart) (Some example_prediction)))
     = map_option label (latest_prediction (example_latest (Some Parkinsons)
         (Some (example_prediction\<lparr>probability := Fin 0.2, health_score := Fin 80\<rparr>))))"
    by (simp add: example_latest_def example_prediction_def)
  show ?thesis
    by (rule conjI [OF h risk_wording_fixed [OF h, THEN conjunct1]])
qed

text \<open>
  The claim as first stated fails: with label 1 the wording is "higher risk" for each of
  the four tasks, so label 1 is always taken to mean the higher risk.
\<close>

theorem risk_wording_counterexample:
  "label example_prediction = Fin 1
   \<and> riskLevel (example_latest (Some Heart) (Some example_prediction)) = Some ''higher risk''
   \<and> riskLevel (example_latest (Some Diabetes) (Some example_prediction)) = Some ''higher risk''
   \<and> riskLevel (example_latest (Some Parkinsons) (Some example_prediction))
       = Some ''higher risk''
   \<and> riskLevel (example_latest (Some General) (Some example_prediction)) = Some ''higher risk''
   \<and> fst (getRiskLevel (Fin 1) (Fin 0.8)) = ''Higher Risk''"
  by (simp add: riskLevel_def getRiskLevel_def example_latest_def example_prediction_def)

section \<open>The stored chat history\<close>

lemma slice_last: "0 < n \<Longrightarrow> slice (- int n) xs = drop (length xs - n) xs"
  by (auto simp: slice_def Let_def max_def nat_diff_distrib')

lemma slice10_eq: "slice (-10) xs = drop (length xs - 10) xs"
  using slice_last [of 10 xs] by simp

lemma slice10: "length (slice (-10) xs) \<le> 10"
  by (simp add: slice10_eq)

lemma ask_bounded:
  "history_bounded ls key \<Longrightarrow> history_bounded (ask trim fmt now later h ms q out ls) key"
  by (auto simp: ask_def history_bounded_def Let_def slice10 split: outcome.splits)

lemma sendMessage_bounded:
  "history_bounded ls key \<Longrightarrow>
     history_bounded (sendMessage trim fmt now later h ms q out ls) key"
  by (auto simp: sendMessage_def history_bounded_def Let_def slice10 split: outcome.splits)

lemma chat_step_bounded:
  "history_bounded ls key \<Longrightarrow> history_bounded (chat_step trim fmt ls ev) key"
  by (cases ev) (auto simp: ask_bounded sendMessage_bounded, auto simp: history_bounded_def)

lemma chat_run_bounded:
  "history_bounded ls key \<Longrightarrow> history_bounded (chat_run trim fmt ls evs) key"
  unfolding chat_run_def
  by (induction evs arbitrary: ls) (auto simp: chat_step_bounded)

text \<open>What \<open>ask\<close> and \<open>sendMessage\<close> store, and when they store nothing.\<close>

lemma ask_stores:
  "has_latest \<and> trim q \<noteq> [] \<longrightarrow>
     ask trim fmt now later has_latest messages q (Reply summary) ls
       ''dr_intelligence_chat_history_triage'' =
       Some (slice (-10) (messages @
         [\<lparr>msg_id = None, msg_role = ''user'', msg_content = q, msg_timestamp = Some now\<rparr>,
          \<lparr>msg_id = None, msg_role = ''ai'', msg_content = fmt summary,
            msg_timestamp = Some later\<rparr>]))
     \<and> ask trim fmt now later has_latest messages q (Failure detail) ls
       ''dr_intelligence_chat_history_triage'' =
       Some (slice (-10) (messages @
         [\<lparr>msg_id = None, msg_role = ''user'', msg_content = q, msg_timestamp = Some later\<rparr>,
          \<lparr>msg_id = None, msg_role = ''ai'', msg_content = fmt detail,
            msg_timestamp = Some later\<rparr>]))"
  by (simp add: ask_def Let_def)

lemma sendMessage_stores:
  "trim input \<noteq> [] \<and> \<not> isLoading \<longrightarrow>
     sendMessage trim fmt now later isLoading messages input (Reply summary) ls
       ''dr_intelligence_chat_history_floating'' =
       Some (slice (-10) (messages @
         [\<lparr>msg_id = Some now, msg_role = ''user'', msg_content = trim input,
            msg_timestamp = Some now\<rparr>,
          \<lparr>msg_id = Some (later + 1), msg_role = ''assistant'',
            msg_content = fmt (if summary = [] then
              ''I apologize, but I couldn't generate a response. Please try again.''
              else summary),
            msg_timestamp = Some later\<rparr>]))"
  by (simp add: sendMessage_def Let_def)

lemma no_write:
  "(\<not> has_latest \<or> trim q = [] \<longrightarrow> ask trim fmt now later has_latest messages q out ls = ls)
   \<and> (trim input = [] \<or> isLoading \<longrightarrow>
        sendMessage trim fmt now later isLoading messages input out ls = ls)
   \<and> sendMessage trim fmt now later isLoading messages input (Failure detail) ls = ls"
  by (auto simp: ask_def sendMessage_def Let_def)

text \<open>
  Claim C10. Whatever the builtin \<open>trim\<close> and the formatter are: when \<open>ask\<close> writes the
  Triage history (a report is loaded and the question is not blank), on the success path
  and on the error path alike, and when \<open>sendMessage\<close> writes the floating history (the
  input is not blank, nothing is loading and the request succeeds), the list stored is
  \<open>slice(-10)\<close> of the closure's messages followed by the user message and the reply;
  otherwise they leave the storage as it is. \<open>slice(-10)\<close> of a list is its last ten
  elements, or all of them when there are fewer. So starting from a storage whose two
  history entries hold at most ten messages each (an empty storage, for one), after
  every sequence of questions, sent messages, replies, failures and new-report resets,
  each of the two entries is absent or holds at most ten messages.
\<close>

theorem chat_history_at_most_ten:
  "(has_latest \<and> trim q \<noteq> [] \<longrightarrow>
     ask trim fmt now later has_latest messages q (Reply summary) ls
       ''dr_intelligence_chat_history_triage'' =
       Some (slice (-10) (messages @
         [\<lparr>msg_id = None, msg_role = ''user'', msg_content = q, msg_timestamp = Some now\<rparr>,
          \<lparr>msg_id = None, msg_role = ''ai'', msg_content = fmt summary,
            msg_timestamp = Some later\<rparr>]))
     \<and> ask trim fmt now later has_latest messages q (Failure detail) ls
       ''dr_intelligence_chat_history_triage'' =
       Some (slice (-10) (messages @
         [\<lparr>msg_id = None, msg_role = ''user'', msg_content = q, msg_timestamp = Some later\<rparr>,
          \<lparr>msg_id = None, msg_role = ''ai'', msg_content = fmt detail,
            msg_timestamp = Some later\<rparr>])))
   \<and> (trim input \<noteq> [] \<and> \<not> isLoading \<longrightarrow>
     sendMessage trim fmt now later isLoading messages input (Reply summary) ls
       ''dr_intelligence_chat_history_floating'' =
       Some (slice (-10) (messages @
         [\<lparr>msg_id = Some now, msg_role = ''user'', msg_content = trim input,
            msg_timestamp = Some now\<rparr>,
          \<lparr>msg_id = Some (later + 1), msg_role = ''assistant'',
            msg_content = fmt (if summary = [] then
              ''I apologize, but I couldn't generate a response. Please try again.''
              else summary),
            msg_timestamp = Some later\<rparr>])))
   \<and> (\<not> has_latest \<or> trim q = [] \<longrightarrow> ask trim fmt now later has_latest messages q out ls = ls)
   \<and> (trim input = [] \<or> isLoading \<longrightarrow>
        sendMessage trim fmt now later isLoading messages input out ls = ls)
   \<and> sendMessage trim fmt now later isLoading messages input (Failure detail) ls = ls
   \<and> slice (-10) msgs = drop (length msgs - 10) msgs
   \<and> length (slice (-10) msgs) = min 10 (length msgs)
   \<and> suffix (slice (-10) msgs) msgs
   \<and> (history_bounded ls ''dr_intelligence_chat_history_triage''
        \<and> history_bounded ls ''dr_intelligence_chat_history_floating'' \<longrightarrow>
      history_bounded (chat_run trim fmt ls evs) ''dr_intelligence_chat_history_triage''
      \<and> history_bounded (chat_run trim fmt ls evs) ''dr_intelligence_chat_history_floating'')"
proof -
  note w1 = ask_stores [of has_latest trim q fmt now later messages summary ls detail]
  note w2 = sendMessage_stores [of trim input isLoading fmt now later messages summary ls]
  note n = no_write [of has_latest trim q fmt now later messages out ls input isLoading detail]
  have s1: "slice (-10) msgs = drop (length msgs - 10) msgs" by (rule slice10_eq)
  have s2: "length (slice (-10) msgs) = min 10 (length msgs)" by (simp add: slice10_eq)
  have s3: "suffix (slice (-10) msgs) msgs" by (simp add: slice10_eq suffix_drop)
  have inv: "history_bounded ls ''dr_intelligence_chat_history_triage''
        \<and> history_bounded ls ''dr_intelligence_chat_history_floating'' \<longrightarrow>
      history_bounded (chat_run trim fmt ls evs) ''dr_intelligence_chat_history_triage''
      \<and> history_bounded (chat_run trim fmt ls evs) ''dr_intelligence_chat_history_floating''"
    by (simp add: chat_run_bounded)
  from w1 w2 n [THEN conjunct1] n [THEN conjunct2, THEN conjunct1]
    n [THEN conjunct2, THEN conjunct2] s1 s2 s3 inv
  show ?thesis by (intro conjI)
qed

text \<open>
  The theorem at the empty storage, for a question asked with twelve earlier messages
  and answered: the ten messages stored are the last ten of the fourteen.
\<close>

theorem chat_history_at_most_ten_witness:
  "ask trim_sample (\<lambda>s. s) 20 21 True example_history ''how am I?'' (Reply ''fine'') Map.empty
     ''dr_intelligence_chat_history_triage'' =
     Some (map example_message [5, 6, 7, 8, 9, 10, 11, 12] @
       [\<lparr>msg_id = None, msg_role = ''user'', msg_content = ''how am I?'',
          msg_timestamp = Some 20\<rparr>,
        \<lparr>msg_id = None, msg_role = ''ai'', msg_content = ''fine'', msg_timestamp = Some 21\<rparr>])
   \<and> history_bounded
        (chat_run trim_sample (\<lambda>s. s) Map.empty
          [TriageAsk 20 21 True example_history ''how am I?'' (Reply ''fine''),
           FloatingSend 30 31 False example_history '' and now? '' (Reply ''still fine'')])
        ''dr_intelligence_chat_history_triage''"
proof -
  note t = chat_history_at_most_ten [where trim = trim_sample and fmt = "\<lambda>s. s"
      and has_latest = True and q = "''how am I?''" and now = 20 and later = 21
      and messages = example_history and summary = "''fine''" and ls = Map.empty
      and evs = "[TriageAsk 20 21 True example_history ''how am I?'' (Reply ''fine''),
           FloatingSend 30 31 False example_history '' and now? '' (Reply ''still fine'')]"]
  have q: "True \<and> trim_sample ''how am I?'' \<noteq> []"
    by (simp add: trim_sample_def whitespace_def)
  have b: "history_bounded Map.empty ''dr_intelligence_chat_history_triage''
        \<and> history_bounded Map.empty ''dr_intelligence_chat_history_floating''"
    by (simp add: history_bounded_def)
  have stored: "ask trim_sample (\<lambda>s. s) 20 21 True example_history ''how am I?''
      (Reply ''fine'') Map.empty ''dr_intelligence_chat_history_triage'' =
       Some (slice (-10) (example_history @
         [\<lparr>msg_id = None, msg_role = ''user'', msg_content = ''how am I?'',
            msg_timestamp = Some 20\<rparr>,
          \<lparr>msg_id = None, msg_role = ''ai'', msg_content = ''fine'',
            msg_timestamp = Some 21\<rparr>]))"
    using t [THEN conjunct1, THEN mp, OF q, THEN conjunct1] .
  have last10: "slice (-10) (example_history @
         [\<lparr>msg_id = None, msg_role = ''user'', msg_content = ''how am I?'',
            msg_timestamp = Some 20\<rparr>,
          \<lparr>msg_id = None, msg_role = ''ai'', msg_content = ''fine'',
            msg_timestamp = Some 21\<rparr>]) =
       map example_message [5, 6, 7, 8, 9, 10, 11, 12] @
       [\<lparr>msg_id = None, msg_role = ''user'', msg_content = ''how am I?'',
          msg_timestamp = Some 20\<rparr>,
        \<lparr>msg_id = None, msg_role = ''ai'', msg_content = ''fine'', msg_timestamp = Some 21\<rparr>]"
    by (simp add: slice_def example_history_def Let_def)
  have inv: "history_bounded
        (chat_run trim_sample (\<lambda>s. s) Map.empty
          [TriageAsk 20 21 True example_history ''how am I?'' (Reply ''fine''),
           FloatingSend 30 31 False example_history '' and now? '' (Reply ''still fine'')])
        ''dr_intelligence_chat_history_triage''"
    using t [THEN conjunct2, THEN conjunct2, THEN conjunct2, THEN conjunct2, THEN conjunct2,
        THEN conjunct2, THEN conjunct2, THEN conjunct2, THEN mp, OF b, THEN conjunct1] .
  from stored last10 inv show ?thesis by simp
qed

end
